theory Spec2Isabelle
  imports Complex_Main
begin

section \<open>Python floats: IEEE 754 binary64\<close>

text \<open>
  The player's position and velocity are Python floats.  A float is modelled by its
  value: a finite double is the real number it denotes, next to the two infinities and
  NaN.  The two zeros of IEEE 754 are identified: the program only adds, multiplies and
  compares floats, and none of these tells \<open>-0.0\<close> from \<open>0.0\<close>.  The Python integer
  \<open>0\<close> that \<open>__init__\<close>, \<open>stop\<close> and \<open>update_speed\<close> store in a speed field is the
  same value as the float \<open>0.0\<close> (\<open>0 == 0.0\<close>, and every mixed operation converts it
  first), so it is \<open>Fin 0\<close> here.
\<close>

datatype pyfloat = Fin real | PInf | NInf | NaN

text \<open>The binade of a nonzero real: \<open>2 ^ e \<le> |x| < 2 ^ (e + 1)\<close>.\<close>

definition float_exponent :: "real \<Rightarrow> int" where
  "float_exponent x = \<lfloor>log 2 \<bar>x\<bar>\<rfloor>"

text \<open>
  The spacing of the doubles around \<open>x\<close>: 53 significant bits in the normal range,
  the fixed spacing \<open>2 ^ -1074\<close> of the subnormal numbers below \<open>2 ^ -1022\<close>.
\<close>

definition quantum :: "real \<Rightarrow> real" where
  "quantum x = 2 powi (max (float_exponent x) (- 1022) - 52)"

definition round_half_even :: "real \<Rightarrow> int" where
  "round_half_even y =
     (let f = \<lfloor>y\<rfloor>; r = y - of_int f
      in if r < 1 / 2 then f
         else if 1 / 2 < r then f + 1
         else if even f then f else f + 1)"

text \<open>Round to nearest, ties to even, with an unbounded exponent.\<close>

definition rne :: "real \<Rightarrow> real" where
  "rne x = (if x = 0 then 0 else of_int (round_half_even (x / quantum x)) * quantum x)"

text \<open>The result of an arithmetic operation whose exact value is \<open>x\<close>.\<close>

definition round_double :: "real \<Rightarrow> pyfloat" where
  "round_double x =
     (let y = rne x
      in if 2 ^ 1024 \<le> y then PInf else if y \<le> - (2 ^ 1024) then NInf else Fin y)"

text \<open>The reals that are doubles are the ones rounding leaves alone.\<close>

definition is_double :: "real \<Rightarrow> bool" where
  "is_double x = (round_double x = Fin x)"

fun wf_float :: "pyfloat \<Rightarrow> bool" where
  "wf_float (Fin x) = is_double x"
| "wf_float PInf = True"
| "wf_float NInf = True"
| "wf_float NaN = True"

fun fadd :: "pyfloat \<Rightarrow> pyfloat \<Rightarrow> pyfloat" where
  "fadd (Fin a) (Fin b) = round_double (a + b)"
| "fadd NaN _ = NaN"
| "fadd _ NaN = NaN"
| "fadd PInf NInf = NaN"
| "fadd NInf PInf = NaN"
| "fadd PInf _ = PInf"
| "fadd _ PInf = PInf"
| "fadd NInf _ = NInf"
| "fadd _ NInf = NInf"

fun fmul :: "pyfloat \<Rightarrow> pyfloat \<Rightarrow> pyfloat" where
  "fmul (Fin a) (Fin b) = round_double (a * b)"
| "fmul NaN _ = NaN"
| "fmul _ NaN = NaN"
| "fmul PInf (Fin b) = (if b = 0 then NaN else if 0 < b then PInf else NInf)"
| "fmul NInf (Fin b) = (if b = 0 then NaN else if 0 < b then NInf else PInf)"
| "fmul (Fin a) PInf = (if a = 0 then NaN else if 0 < a then PInf else NInf)"
| "fmul (Fin a) NInf = (if a = 0 then NaN else if 0 < a then NInf else PInf)"
| "fmul PInf PInf = PInf"
| "fmul PInf NInf = NInf"
| "fmul NInf PInf = NInf"
| "fmul NInf NInf = PInf"

fun fneg :: "pyfloat \<Rightarrow> pyfloat" where
  "fneg (Fin a) = Fin (- a)"
| "fneg PInf = NInf"
| "fneg NInf = PInf"
| "fneg NaN = NaN"

text \<open>Comparisons: every comparison with NaN is false.\<close>

fun flt :: "pyfloat \<Rightarrow> pyfloat \<Rightarrow> bool" where
  "flt (Fin a) (Fin b) = (a < b)"
| "flt NaN _ = False"
| "flt _ NaN = False"
| "flt PInf _ = False"
| "flt _ NInf = False"
| "flt NInf _ = True"
| "flt _ PInf = True"

fun fle :: "pyfloat \<Rightarrow> pyfloat \<Rightarrow> bool" where
  "fle (Fin a) (Fin b) = (a \<le> b)"
| "fle NaN _ = False"
| "fle _ NaN = False"
| "fle NInf _ = True"
| "fle _ PInf = True"
| "fle PInf _ = False"
| "fle _ NInf = False"

definition fgt :: "pyfloat \<Rightarrow> pyfloat \<Rightarrow> bool" where
  "fgt a b = flt b a"

definition fge :: "pyfloat \<Rightarrow> pyfloat \<Rightarrow> bool" where
  "fge a b = fle b a"

definition feq :: "pyfloat \<Rightarrow> pyfloat \<Rightarrow> bool" where
  "feq a b = (a = b \<and> a \<noteq> NaN)"

subsection \<open>Conversions and the math module\<close>

datatype error = OverflowError | ValueError

definition and_then :: "error + 'a \<Rightarrow> ('a \<Rightarrow> error + 'b) \<Rightarrow> error + 'b" where
  "and_then r f = (case r of Inl e \<Rightarrow> Inl e | Inr v \<Rightarrow> f v)"

text \<open>
  An integer operand of a float operation is converted first; Python raises
  \<open>OverflowError\<close> when the integer is too large for a double.
\<close>

definition py_float :: "int \<Rightarrow> error + pyfloat" where
  "py_float n =
     (case round_double (of_int n) of Fin y \<Rightarrow> Inr (Fin y) | _ \<Rightarrow> Inl OverflowError)"

text \<open>\<open>int(x)\<close> truncates towards zero and raises on NaN and on the infinities.\<close>

definition py_int :: "pyfloat \<Rightarrow> error + int" where
  "py_int x =
     (case x of
        Fin a \<Rightarrow> Inr (if 0 \<le> a then \<lfloor>a\<rfloor> else \<lceil>a\<rceil>)
      | NaN \<Rightarrow> Inl ValueError
      | _ \<Rightarrow> Inl OverflowError)"

text \<open>
  \<open>math.radians(x)\<close> is \<open>x * (pi / 180)\<close> in doubles, the factor being the double
  \<open>0x1.1df46a2529d39p-6\<close>.  \<open>math.cos\<close> and \<open>math.sin\<close> are taken as correctly rounded;
  they raise \<open>ValueError\<close> on an infinity.
\<close>

definition deg_to_rad :: pyfloat where
  "deg_to_rad = Fin (5030569068109113 / 2 ^ 58)"

definition radians :: "int \<Rightarrow> error + pyfloat" where
  "radians d = and_then (py_float d) (\<lambda>x. Inr (fmul x deg_to_rad))"

definition py_cos :: "pyfloat \<Rightarrow> error + pyfloat" where
  "py_cos x =
     (case x of Fin a \<Rightarrow> Inr (round_double (cos a)) | NaN \<Rightarrow> Inr NaN | _ \<Rightarrow> Inl ValueError)"

definition py_sin :: "pyfloat \<Rightarrow> error + pyfloat" where
  "py_sin x =
     (case x of Fin a \<Rightarrow> Inr (round_double (sin a)) | NaN \<Rightarrow> Inr NaN | _ \<Rightarrow> Inl ValueError)"

text \<open>The float literals of the source, each the double nearest to its decimal.\<close>

definition lit_0_01 :: pyfloat where
  "lit_0_01 = round_double (1 / 100)"

definition lit_0_05 :: pyfloat where
  "lit_0_05 = round_double (5 / 100)"

section \<open>The player\<close>

datatype player_state = IDLE | AIMING | POWER | SHOOTING

record player =
  state :: player_state
  pos_x :: pyfloat
  pos_y :: pyfloat
  direction :: int
  speed_x :: pyfloat
  speed_y :: pyfloat
  shooting_start_position :: "pyfloat \<times> pyfloat"

text \<open>
  The constants of \<open>src.configurations\<close> the class reads; the module is not part of the
  sources, so they are parameters.
\<close>

record config =
  player_width :: int
  player_height :: int
  max_power_size :: int

text \<open>What the player reads and writes of the \<open>Game\<close> object it is given.\<close>

record game =
  power_size :: int
  shooting :: bool
  screen_width :: int
  screen_height :: int

text \<open>
  What the player reads and writes of pygame's input system: the key repeat
  \<open>(delay, interval)\<close>, the period of the \<open>USEREVENT\<close> timer, the number of \<open>USEREVENT\<close>
  events waiting in the queue, and whether the left and right keys are held.
\<close>

record pygame =
  key_repeat :: "int \<times> int"
  user_timer :: int
  user_events :: nat
  left_pressed :: bool
  right_pressed :: bool

datatype key = K_SPACE | K_LEFT | K_RIGHT | K_UP | K_DOWN | K_OTHER nat

text \<open>An event is a key press with its key, or an event of any other type.\<close>

datatype event = KEYDOWN key | OTHER_EVENT nat

definition center :: "config \<Rightarrow> player \<Rightarrow> error + pyfloat \<times> pyfloat" where
  "center cfg p =
     and_then (py_float (player_width cfg div 2)) (\<lambda>w.
     and_then (py_float (player_height cfg div 2)) (\<lambda>h.
       Inr (fadd (pos_x p) w, fadd (pos_y p) h)))"

text \<open>
  \<open>__init__\<close>; the bounding rectangle, the image and the set \<open>gures\<close> are pygame objects
  no operation below reads, and are left out of the record.
\<close>

definition init_player :: "config \<Rightarrow> pyfloat \<Rightarrow> pyfloat \<Rightarrow> error + player" where
  "init_player cfg x y =
     (let p = \<lparr>state = IDLE, pos_x = x, pos_y = y, direction = 0,
                speed_x = Fin 0, speed_y = Fin 0, shooting_start_position = (x, y)\<rparr>
      in and_then (center cfg p) (\<lambda>c. Inr (p\<lparr>shooting_start_position := c\<rparr>)))"

text \<open>
  \<open>handle_event\<close>.  \<open>Game.set_power_size\<close> is not part of the sources: it is the
  parameter \<open>set_power_size\<close>.  The result is the player, the game, the input system and
  the returned integer.
\<close>

definition handle_event ::
  "config \<Rightarrow> (game \<Rightarrow> int \<Rightarrow> game) \<Rightarrow> player \<Rightarrow> game \<Rightarrow> pygame \<Rightarrow> event
     \<Rightarrow> error + player \<times> game \<times> pygame \<times> int" where
  "handle_event cfg set_power_size p g pg ev =
     (case ev of
        OTHER_EVENT t \<Rightarrow> Inr (p, g, pg, 0)
      | KEYDOWN k \<Rightarrow>
          (case k of
             K_SPACE \<Rightarrow>
               and_then (center cfg p) (\<lambda>c.
               and_then (py_float (power_size g)) (\<lambda>pw.
               and_then (radians (direction p)) (\<lambda>a.
               and_then (py_cos a) (\<lambda>co.
               and_then (py_sin a) (\<lambda>si.
                 Inr (p\<lparr>state := SHOOTING, shooting_start_position := c,
                         speed_x := fmul (fmul lit_0_01 pw) co,
                         speed_y := fmul (fmul lit_0_01 pw) si\<rparr>, g, pg, 1))))))
           | K_RIGHT \<Rightarrow>
               Inr (p\<lparr>state := AIMING, direction := direction p + 5\<rparr>, g,
                    pg\<lparr>key_repeat := (500, 100), user_timer := 100\<rparr>, 0)
           | K_LEFT \<Rightarrow>
               Inr (p\<lparr>state := AIMING, direction := direction p - 5\<rparr>, g,
                    pg\<lparr>key_repeat := (500, 100), user_timer := 100\<rparr>, 0)
           | K_UP \<Rightarrow>
               Inr (p\<lparr>state := POWER\<rparr>,
                    (if power_size g < max_power_size cfg
                     then set_power_size g (power_size g + 100) else g), pg, 0)
           | K_DOWN \<Rightarrow>
               Inr (p\<lparr>state := POWER\<rparr>,
                    (if 0 < power_size g
                     then set_power_size g (power_size g - 100) else g), pg, 0)
           | K_OTHER c \<Rightarrow> Inr (p, g, pg, 0)))"

text \<open>The decay rule.\<close>

definition update_speed :: "pyfloat \<Rightarrow> pyfloat" where
  "update_speed speed =
     (let x = fgt speed (Fin 0);
          speed' = fadd speed (if fgt speed (Fin 0) then fneg lit_0_05 else lit_0_05);
          y = fgt speed' (Fin 0)
      in if x \<noteq> y then Fin 0 else speed')"

text \<open>
  The loop of \<open>update\<close> over the \<open>USEREVENT\<close> events taken from the queue: one aiming
  step for each.
\<close>

fun aim_repeat :: "nat \<Rightarrow> pygame \<Rightarrow> int \<Rightarrow> int" where
  "aim_repeat 0 pg d = d"
| "aim_repeat (Suc n) pg d =
     aim_repeat n pg
       (if left_pressed pg then d - 5 else if right_pressed pg then d + 5 else d)"

definition update :: "config \<Rightarrow> player \<Rightarrow> game \<Rightarrow> pygame \<Rightarrow> player \<times> game \<times> pygame" where
  "update cfg p g pg =
     (let d = aim_repeat (user_events pg) pg (direction p);
          x = fadd (pos_x p) (speed_x p);
          y = fadd (pos_y p) (speed_y p);
          g' = (if feq (speed_x p) (Fin 0) \<and> feq (speed_y p) (Fin 0)
                then g\<lparr>shooting := False\<rparr> else g);
          sx = (if fle x (Fin (of_int (player_width cfg))) \<or> fge x (Fin (of_int (screen_width g)))
                then fmul (Fin (- 1)) (speed_x p) else speed_x p);
          sy = (if fle y (Fin (of_int (player_height cfg))) \<or> fge y (Fin (of_int (screen_height g)))
                then fmul (Fin (- 1)) (speed_y p) else speed_y p);
          sx' = update_speed sx;
          sy' = update_speed sy;
          st = (if state p = SHOOTING \<and> feq sx' sy' \<and> feq sy' (Fin 0) then IDLE else state p)
      in (p\<lparr>state := st, pos_x := x, pos_y := y, direction := d, speed_x := sx', speed_y := sy'\<rparr>,
          g', pg\<lparr>user_events := 0\<rparr>))"

definition stop :: "player \<Rightarrow> player" where
  "stop p = p\<lparr>speed_x := Fin 0, speed_y := Fin 0\<rparr>"

text \<open>
  \<open>draw\<close>: the calls made on the screen and on the power bar, in order, and the player
  after the call.  The translation vector is the pair of the two components the code
  reads.  The image is a pygame surface, left out of the record; of its rescaling only
  the size passed to pygame is kept, in the \<open>Blit\<close> call.
\<close>

datatype draw_call =
    Line "pyfloat \<times> pyfloat" "pyfloat \<times> pyfloat"
  | PowerBar pyfloat
  | Blit "int \<times> int" "pyfloat \<times> pyfloat"

definition aim_line :: "config \<Rightarrow> player \<Rightarrow> pyfloat \<Rightarrow> error + draw_call list" where
  "aim_line cfg p scale_factor =
     and_then (center cfg p) (\<lambda>start.
     and_then (radians (direction p)) (\<lambda>a.
     and_then (py_cos a) (\<lambda>co.
     and_then (radians (direction p)) (\<lambda>b.
     and_then (py_sin b) (\<lambda>si.
       Inr [Line start
              (fadd (fst start) (fmul (fmul (Fin 100) co) scale_factor),
               fadd (snd start) (fmul (fmul (Fin 100) si) scale_factor))])))))"

definition draw ::
  "config \<Rightarrow> player \<Rightarrow> pyfloat \<Rightarrow> pyfloat \<times> pyfloat \<Rightarrow> error + player \<times> draw_call list" where
  "draw cfg p scale_factor translation_vector =
     and_then (if state p = AIMING \<or> state p = POWER then aim_line cfg p scale_factor else Inr [])
       (\<lambda>line.
     let bar = (if state p = POWER then [PowerBar scale_factor] else []);
         p' = p\<lparr>pos_x := fadd (fmul (pos_x p) scale_factor) (fst translation_vector),
                 pos_y := fadd (fmul (pos_y p) scale_factor) (snd translation_vector)\<rparr>
     in and_then (py_float (player_width cfg)) (\<lambda>w.
        and_then (py_int (fmul w scale_factor)) (\<lambda>iw.
        and_then (py_float (player_height cfg)) (\<lambda>h.
        and_then (py_int (fmul h scale_factor)) (\<lambda>ih.
          Inr (p', line @ bar @ [Blit (iw, ih) (pos_x p', pos_y p')]))))))"

text \<open>
  The players a session can hold: a constructed one, and whatever the four operations
  make of it, with any game, any input state and any event.
\<close>

inductive reachable :: "config \<Rightarrow> player \<Rightarrow> bool" for cfg :: config where
  r_init: "init_player cfg x y = Inr p \<Longrightarrow> reachable cfg p"
| r_event: "reachable cfg p \<Longrightarrow> handle_event cfg sps p g pg ev = Inr (p', g', pg', r)
            \<Longrightarrow> reachable cfg p'"
| r_update: "reachable cfg p \<Longrightarrow> update cfg p g pg = (p', g', pg') \<Longrightarrow> reachable cfg p'"
| r_stop: "reachable cfg p \<Longrightarrow> reachable cfg (stop p)"
| r_draw: "reachable cfg p \<Longrightarrow> draw cfg p s t = Inr (p', calls) \<Longrightarrow> reachable cfg p'"

subsection \<open>A session to run the operations in\<close>

text \<open>
  Modelled from the spec: \<open>Game.set_power_size\<close> is not part of the sources.  The spec
  makes the session the owner of the charge power, which it clamps to
  \<open>[0, maxPower]\<close>.
\<close>

definition set_power_size_clamped :: "config \<Rightarrow> game \<Rightarrow> int \<Rightarrow> game" where
  "set_power_size_clamped cfg g v = g\<lparr>power_size := max 0 (min (max_power_size cfg) v)\<rparr>"

text \<open>A setter that stores what it is given, to observe what the player asks for.\<close>

definition set_power_size_plain :: "game \<Rightarrow> int \<Rightarrow> game" where
  "set_power_size_plain g v = g\<lparr>power_size := v\<rparr>"

text \<open>
  Concrete values for the scenarios: a 50 by 50 player on an 800 by 600 screen, the
  player of the spec's launch scenario at (400, 300) with direction 0, charge power 300
  and no key held.
\<close>

definition example_config :: config where
  "example_config = \<lparr>player_width = 50, player_height = 50, max_power_size = 1000\<rparr>"

definition example_game :: game where
  "example_game = \<lparr>power_size = 300, shooting = False, screen_width = 800, screen_height = 600\<rparr>"

definition quiet_pygame :: pygame where
  "quiet_pygame = \<lparr>key_repeat = (0, 0), user_timer = 0, user_events = 0,
                    left_pressed = False, right_pressed = False\<rparr>"

definition example_player :: player where
  "example_player = \<lparr>state = IDLE, pos_x = Fin 400, pos_y = Fin 300, direction = 0,
                      speed_x = Fin 0, speed_y = Fin 0,
                      shooting_start_position = (Fin 425, Fin 325)\<rparr>"

text \<open>Successive ticks, each with the game and the input state it finds.\<close>

fun updates :: "config \<Rightarrow> (game \<times> pygame) list \<Rightarrow> player \<Rightarrow> player" where
  "updates cfg [] p = p"
| "updates cfg (e # es) p = updates cfg es (fst (update cfg p (fst e) (snd e)))"

section \<open>Evaluating the float operations\<close>

text \<open>
  The binade of a numeral is found by halving or doubling it into \<open>[1, 2)\<close>; with these
  three rules the simplifier computes \<open>round_double\<close> on any rational numeral.
\<close>

lemma float_exponent_up: "2 \<le> \<bar>x\<bar> \<Longrightarrow> float_exponent x = float_exponent (x / 2) + 1"
proof -
  assume "2 \<le> \<bar>x\<bar>"
  then have "x \<noteq> 0" by auto
  then have "log 2 \<bar>x / 2\<bar> = log 2 \<bar>x\<bar> - 1"
    by (simp add: log_divide)
  then show ?thesis by (simp add: float_exponent_def)
qed

lemma float_exponent_down:
  "\<bar>x\<bar> < 1 \<Longrightarrow> x \<noteq> 0 \<Longrightarrow> float_exponent x = float_exponent (x * 2) - 1"
proof -
  assume "\<bar>x\<bar> < 1" "x \<noteq> 0"
  then have "log 2 \<bar>x * 2\<bar> = log 2 \<bar>x\<bar> + 1"
    by (simp add: log_mult abs_mult)
  then show ?thesis by (simp add: float_exponent_def)
qed

lemma float_exponent_unit: "1 \<le> \<bar>x\<bar> \<Longrightarrow> \<bar>x\<bar> < 2 \<Longrightarrow> float_exponent x = 0"
  unfolding float_exponent_def
  by (subst floor_log_eq_powr_iff) auto

lemmas float_eval = round_double_def rne_def quantum_def round_half_even_def
  float_exponent_up float_exponent_down float_exponent_unit Let_def

lemma lit_0_01_eq: "lit_0_01 = Fin (5764607523034235 / 2 ^ 59)"
  by (simp add: lit_0_01_def float_eval)

lemma lit_0_05_eq: "lit_0_05 = Fin (3602879701896397 / 2 ^ 56)"
  by (simp add: lit_0_05_def float_eval)

lemmas example_defs = example_config_def example_game_def quiet_pygame_def example_player_def

section \<open>The operations, case by case\<close>

lemma and_then_Inr_iff:
  "and_then r f = Inr v \<longleftrightarrow> (\<exists>a. r = Inr a \<and> f a = Inr v)"
  by (cases r) (simp_all add: and_then_def)

lemma init_example: "init_player example_config (Fin 400) (Fin 300) = Inr example_player"
  by (simp add: init_player_def example_defs center_def py_float_def and_then_def float_eval)

lemma space_example:
  "handle_event example_config sps example_player example_game quiet_pygame (KEYDOWN K_SPACE)
     = Inr (example_player\<lparr>state := SHOOTING, speed_x := Fin 3\<rparr>, example_game, quiet_pygame, 1)"
  by (simp add: handle_event_def example_defs center_def py_float_def and_then_def
      radians_def py_cos_def py_sin_def deg_to_rad_def lit_0_01_eq float_eval)



lemma aim_repeat_eq:
  "aim_repeat n pg d =
     (if left_pressed pg then d - 5 * int n else if right_pressed pg then d + 5 * int n else d)"
  by (induction n arbitrary: d) auto

lemma reachable_direction: "reachable cfg p \<Longrightarrow> 5 dvd direction p"
proof (induction rule: reachable.induct)
  case (r_init x y p)
  then show ?case by (auto simp: init_player_def Let_def and_then_Inr_iff)
next
  case (r_event p sps g pg ev p' g' pg' r)
  then show ?case
    by (auto simp: handle_event_def and_then_Inr_iff split: event.splits key.splits)
next
  case (r_update p g pg p' g' pg')
  then show ?case by (auto simp: update_def Let_def aim_repeat_eq)
next
  case (r_stop p)
  then show ?case by (simp add: stop_def)
next
  case (r_draw p s t p' calls)
  then show ?case by (auto simp: draw_def and_then_Inr_iff Let_def)
qed

lemma handle_event_left:
  "handle_event cfg sps p g pg (KEYDOWN K_LEFT) =
     Inr (p\<lparr>state := AIMING, direction := direction p - 5\<rparr>, g,
          pg\<lparr>key_repeat := (500, 100), user_timer := 100\<rparr>, 0)"
  by (simp add: handle_event_def)

lemma handle_event_right:
  "handle_event cfg sps p g pg (KEYDOWN K_RIGHT) =
     Inr (p\<lparr>state := AIMING, direction := direction p + 5\<rparr>, g,
          pg\<lparr>key_repeat := (500, 100), user_timer := 100\<rparr>, 0)"
  by (simp add: handle_event_def)

lemma update_speed_zero: "update_speed (Fin 0) = Fin 0"
  by (simp add: update_speed_def fgt_def lit_0_05_eq float_eval)



section \<open>Rounding\<close>












lemma round_double_zero: "round_double 0 = Fin 0"
  by (simp add: round_double_def rne_def)

lemma fadd_zero: "wf_float x \<Longrightarrow> fadd x (Fin 0) = x"
  by (cases x) (simp_all add: is_double_def)







section \<open>The decay rule\<close>



















section \<open>A player at rest, and drawing\<close>

lemma update_at_rest:
  assumes "speed_x p = Fin 0" "speed_y p = Fin 0"
  shows "speed_x (fst (update cfg p g pg)) = Fin 0"
    and "speed_y (fst (update cfg p g pg)) = Fin 0"
    and "wf_float (pos_x p) \<Longrightarrow> pos_x (fst (update cfg p g pg)) = pos_x p"
    and "wf_float (pos_y p) \<Longrightarrow> pos_y (fst (update cfg p g pg)) = pos_y p"
  using assms by (simp_all add: update_def Let_def round_double_zero update_speed_zero fadd_zero)

lemma updates_at_rest:
  "speed_x p = Fin 0 \<Longrightarrow> speed_y p = Fin 0 \<Longrightarrow> wf_float (pos_x p) \<Longrightarrow> wf_float (pos_y p) \<Longrightarrow>
     speed_x (updates cfg es p) = Fin 0 \<and> speed_y (updates cfg es p) = Fin 0
     \<and> pos_x (updates cfg es p) = pos_x p \<and> pos_y (updates cfg es p) = pos_y p"
proof (induction es arbitrary: p)
  case Nil
  then show ?case by simp
next
  case (Cons e es)
  let ?q = "fst (update cfg p (fst e) (snd e))"
  have q: "speed_x ?q = Fin 0" "speed_y ?q = Fin 0" "pos_x ?q = pos_x p" "pos_y ?q = pos_y p"
    using Cons.prems by (simp_all add: update_at_rest)
  then have "wf_float (pos_x ?q)" "wf_float (pos_y ?q)" using Cons.prems by simp_all
  from Cons.IH [OF q(1) q(2) this] show ?case using q by simp
qed



section \<open>Launching, bouncing and charging\<close>
















lemma handle_event_up:
  "handle_event cfg sps p g pg (KEYDOWN K_UP) =
     Inr (p\<lparr>state := POWER\<rparr>,
          (if power_size g < max_power_size cfg then sps g (power_size g + 100) else g), pg, 0)"
  by (simp add: handle_event_def)

lemma handle_event_down:
  "handle_event cfg sps p g pg (KEYDOWN K_DOWN) =
     Inr (p\<lparr>state := POWER\<rparr>,
          (if 0 < power_size g then sps g (power_size g - 100) else g), pg, 0)"
  by (simp add: handle_event_def)

lemma clamped_range:
  "0 \<le> power_size g \<Longrightarrow> power_size g \<le> max_power_size cfg \<Longrightarrow>
   handle_event cfg (set_power_size_clamped cfg) p g pg ev = Inr (p', g', pg', r) \<Longrightarrow>
   0 \<le> power_size g' \<and> power_size g' \<le> max_power_size cfg"
  by (auto simp: handle_event_def and_then_Inr_iff set_power_size_clamped_def
      split: event.splits key.splits if_splits)

section \<open>The claims\<close>

text \<open>
  C9.  An event that is not a key press, and a press of a key other than space, left,
  right, up and down, leave the player, the game and the input system as they are and
  return 0; \<open>handle_event\<close> returns 1 for a press of the space key only.
\<close>

theorem handle_event_other_is_noop:
  "handle_event cfg sps p g pg (OTHER_EVENT t) = Inr (p, g, pg, 0)
   \<and> handle_event cfg sps p g pg (KEYDOWN (K_OTHER c)) = Inr (p, g, pg, 0)
   \<and> (handle_event cfg sps p g pg ev = Inr (p', g', pg', 1) \<longrightarrow> ev = KEYDOWN K_SPACE)"
  by (auto simp: handle_event_def and_then_Inr_iff split: event.splits key.splits)

theorem handle_event_other_is_noop_witness:
  "handle_event example_config set_power_size_plain example_player example_game quiet_pygame
      (KEYDOWN K_SPACE)
     = Inr (example_player\<lparr>state := SHOOTING, speed_x := Fin 3\<rparr>, example_game, quiet_pygame, 1)
   \<and> handle_event example_config set_power_size_plain example_player example_game quiet_pygame
      (OTHER_EVENT 2) = Inr (example_player, example_game, quiet_pygame, 0)
   \<and> handle_event example_config set_power_size_plain example_player example_game quiet_pygame
      (KEYDOWN (K_OTHER 97)) = Inr (example_player, example_game, quiet_pygame, 0)"
  using handle_event_other_is_noop [of example_config set_power_size_plain example_player
      example_game quiet_pygame 2 97 "KEYDOWN K_SPACE"
      "example_player\<lparr>state := SHOOTING, speed_x := Fin 3\<rparr>" example_game quiet_pygame]
    space_example [of set_power_size_plain]
  by simp



text \<open>
  C7.  A press of the right key adds 5 to the direction and a press of the left key
  takes 5 away; each \<open>USEREVENT\<close> the tick takes from the queue moves the direction by
  5 towards the key that is held, so a tick moves it by 5 times the number of queued
  events; the direction is an integer, and a multiple of 5 in every player a session can
  reach from a constructed one; three presses of the left key take 15 away.
\<close>

theorem direction_moves_in_steps_of_five:
  "handle_event cfg sps p g pg (KEYDOWN K_RIGHT) =
     Inr (p\<lparr>state := AIMING, direction := direction p + 5\<rparr>, g,
          pg\<lparr>key_repeat := (500, 100), user_timer := 100\<rparr>, 0)
   \<and> handle_event cfg sps p g pg (KEYDOWN K_LEFT) =
     Inr (p\<lparr>state := AIMING, direction := direction p - 5\<rparr>, g,
          pg\<lparr>key_repeat := (500, 100), user_timer := 100\<rparr>, 0)
   \<and> aim_repeat (Suc n) pg d - aim_repeat n pg d =
       (if left_pressed pg then - 5 else if right_pressed pg then 5 else 0)
   \<and> direction (fst (update cfg p g pg)) =
       (if left_pressed pg then direction p - 5 * int (user_events pg)
        else if right_pressed pg then direction p + 5 * int (user_events pg)
        else direction p)
   \<and> (reachable cfg q \<longrightarrow> 5 dvd direction q)
   \<and> (\<exists>p1 g1 pg1 r1 p2 g2 pg2 r2 p3 g3 pg3 r3.
         handle_event cfg sps p g pg (KEYDOWN K_LEFT) = Inr (p1, g1, pg1, r1)
       \<and> handle_event cfg sps p1 g1 pg1 (KEYDOWN K_LEFT) = Inr (p2, g2, pg2, r2)
       \<and> handle_event cfg sps p2 g2 pg2 (KEYDOWN K_LEFT) = Inr (p3, g3, pg3, r3)
       \<and> direction p3 = direction p - 15)"
proof -
  have rep: "aim_repeat (Suc n) pg d - aim_repeat n pg d =
       (if left_pressed pg then - 5 else if right_pressed pg then 5 else 0)"
    by (simp add: aim_repeat_eq)
  have upd: "direction (fst (update cfg p g pg)) =
       (if left_pressed pg then direction p - 5 * int (user_events pg)
        else if right_pressed pg then direction p + 5 * int (user_events pg)
        else direction p)"
    by (simp add: update_def Let_def aim_repeat_eq)
  have three: "\<exists>p1 g1 pg1 r1 p2 g2 pg2 r2 p3 g3 pg3 r3.
         handle_event cfg sps p g pg (KEYDOWN K_LEFT) = Inr (p1, g1, pg1, r1)
       \<and> handle_event cfg sps p1 g1 pg1 (KEYDOWN K_LEFT) = Inr (p2, g2, pg2, r2)
       \<and> handle_event cfg sps p2 g2 pg2 (KEYDOWN K_LEFT) = Inr (p3, g3, pg3, r3)
       \<and> direction p3 = direction p - 15"
    by (simp add: handle_event_left)
  show ?thesis
    using rep upd three reachable_direction handle_event_left handle_event_right by blast
qed

theorem direction_moves_in_steps_of_five_witness:
  "reachable example_config (example_player\<lparr>state := AIMING, direction := - 15\<rparr>)
   \<and> (5::int) dvd - 15"
proof -
  let ?pg = "quiet_pygame\<lparr>key_repeat := (500, 100), user_timer := 100\<rparr>"
  have r0: "reachable example_config example_player"
    using init_example by (rule r_init)
  have r1: "reachable example_config (example_player\<lparr>state := AIMING, direction := - 5\<rparr>)"
    using r_event [OF r0, of set_power_size_plain example_game quiet_pygame "KEYDOWN K_LEFT"
        "example_player\<lparr>state := AIMING, direction := - 5\<rparr>" example_game ?pg 0]
    by (simp add: handle_event_left example_player_def)
  have r2: "reachable example_config (example_player\<lparr>state := AIMING, direction := - 10\<rparr>)"
    using r_event [OF r1, of set_power_size_plain example_game quiet_pygame "KEYDOWN K_LEFT"
        "example_player\<lparr>state := AIMING, direction := - 10\<rparr>" example_game ?pg 0]
    by (simp add: handle_event_left example_player_def)
  have r3: "reachable example_config (example_player\<lparr>state := AIMING, direction := - 15\<rparr>)"
    using r_event [OF r2, of set_power_size_plain example_game quiet_pygame "KEYDOWN K_LEFT"
        "example_player\<lparr>state := AIMING, direction := - 15\<rparr>" example_game ?pg 0]
    by (simp add: handle_event_left example_player_def)
  show ?thesis
    using r3 direction_moves_in_steps_of_five [of example_config set_power_size_plain example_player
        example_game quiet_pygame 0 0 "example_player\<lparr>state := AIMING, direction := - 15\<rparr>"]
    by simp
qed




text \<open>
  C10.  Zero is a fixed point of the decay rule.  A player whose velocity is exactly
  (0, 0) has velocity (0, 0) after a tick and after any number of ticks, whatever the
  game and the input state, and its position is the same.
\<close>

theorem zero_velocity_is_fixed:
  "update_speed (Fin 0) = Fin 0
   \<and> (speed_x p = Fin 0 \<and> speed_y p = Fin 0 \<and> wf_float (pos_x p) \<and> wf_float (pos_y p) \<longrightarrow>
        speed_x (fst (update cfg p g pg)) = Fin 0 \<and> speed_y (fst (update cfg p g pg)) = Fin 0
        \<and> pos_x (fst (update cfg p g pg)) = pos_x p \<and> pos_y (fst (update cfg p g pg)) = pos_y p
        \<and> speed_x (updates cfg es p) = Fin 0 \<and> speed_y (updates cfg es p) = Fin 0
        \<and> pos_x (updates cfg es p) = pos_x p \<and> pos_y (updates cfg es p) = pos_y p)"
  using update_speed_zero update_at_rest [of p cfg g pg] updates_at_rest [of p cfg es] by blast

theorem zero_velocity_is_fixed_witness:
  "speed_x example_player = Fin 0 \<and> speed_y example_player = Fin 0
   \<and> wf_float (pos_x example_player) \<and> wf_float (pos_y example_player)
   \<and> pos_x (updates example_config
        [(example_game, quiet_pygame), (example_game, quiet_pygame\<lparr>user_events := 2\<rparr>)]
        example_player) = Fin 400
   \<and> pos_y (updates example_config
        [(example_game, quiet_pygame), (example_game, quiet_pygame\<lparr>user_events := 2\<rparr>)]
        example_player) = Fin 300
   \<and> speed_x (updates example_config
        [(example_game, quiet_pygame), (example_game, quiet_pygame\<lparr>user_events := 2\<rparr>)]
        example_player) = Fin 0"
proof -
  have h: "speed_x example_player = Fin 0 \<and> speed_y example_player = Fin 0
      \<and> wf_float (pos_x example_player) \<and> wf_float (pos_y example_player)"
    by (simp add: example_player_def is_double_def float_eval)
  show ?thesis
    using h zero_velocity_is_fixed [of example_player example_config example_game quiet_pygame
      "[(example_game, quiet_pygame), (example_game, quiet_pygame\<lparr>user_events := 2\<rparr>)]"]
    by (simp add: example_player_def)
qed











text \<open>
  C5, as the code has it.  The up and down keys make the mode \<open>POWER\<close>.  The up key asks
  the session for the charge power plus 100 only while the power is below the maximum,
  the down key for the power minus 100 only while it is above 0; otherwise nothing is
  asked.  The guard is no clamp: from 950 with maximum 1000 the player asks for 1050.
  With the session's setter clamping, as the spec has it, a charge power in
  \<open>[0, max_power_size]\<close> stays there under every event.
\<close>

theorem power_keys_ask_within_guard:
  "handle_event cfg sps p g pg (KEYDOWN K_UP) =
     Inr (p\<lparr>state := POWER\<rparr>,
          (if power_size g < max_power_size cfg then sps g (power_size g + 100) else g), pg, 0)
   \<and> handle_event cfg sps p g pg (KEYDOWN K_DOWN) =
     Inr (p\<lparr>state := POWER\<rparr>,
          (if 0 < power_size g then sps g (power_size g - 100) else g), pg, 0)
   \<and> handle_event example_config set_power_size_plain example_player
        (example_game\<lparr>power_size := 950\<rparr>) quiet_pygame (KEYDOWN K_UP) =
     Inr (example_player\<lparr>state := POWER\<rparr>, example_game\<lparr>power_size := 1050\<rparr>, quiet_pygame, 0)
   \<and> (0 \<le> power_size g \<and> power_size g \<le> max_power_size cfg
        \<and> handle_event cfg (set_power_size_clamped cfg) p g pg ev = Inr (p', g', pg', r) \<longrightarrow>
      0 \<le> power_size g' \<and> power_size g' \<le> max_power_size cfg)"
proof -
  have "handle_event example_config set_power_size_plain example_player
        (example_game\<lparr>power_size := 950\<rparr>) quiet_pygame (KEYDOWN K_UP) =
     Inr (example_player\<lparr>state := POWER\<rparr>, example_game\<lparr>power_size := 1050\<rparr>, quiet_pygame, 0)"
    by (simp add: handle_event_up example_config_def example_game_def set_power_size_plain_def)
  then show ?thesis
    using handle_event_up handle_event_down clamped_range [of g cfg p pg ev p' g' pg' r] by blast
qed

theorem power_keys_ask_within_guard_witness:
  "0 \<le> power_size (example_game\<lparr>power_size := 950\<rparr>)
   \<and> power_size (example_game\<lparr>power_size := 950\<rparr>) \<le> max_power_size example_config
   \<and> handle_event example_config (set_power_size_clamped example_config) example_player
        (example_game\<lparr>power_size := 950\<rparr>) quiet_pygame (KEYDOWN K_UP)
      = Inr (example_player\<lparr>state := POWER\<rparr>, example_game\<lparr>power_size := 1000\<rparr>, quiet_pygame, 0)
   \<and> 0 \<le> power_size (example_game\<lparr>power_size := 1000\<rparr>)
   \<and> power_size (example_game\<lparr>power_size := 1000\<rparr>) \<le> max_power_size example_config"
proof -
  have h: "0 \<le> power_size (example_game\<lparr>power_size := 950\<rparr>)
      \<and> power_size (example_game\<lparr>power_size := 950\<rparr>) \<le> max_power_size example_config"
    by (simp add: example_config_def)
  have e: "handle_event example_config (set_power_size_clamped example_config) example_player
        (example_game\<lparr>power_size := 950\<rparr>) quiet_pygame (KEYDOWN K_UP)
      = Inr (example_player\<lparr>state := POWER\<rparr>, example_game\<lparr>power_size := 1000\<rparr>, quiet_pygame, 0)"
    by (simp add: handle_event_up example_config_def example_game_def set_power_size_clamped_def)
  show ?thesis
    using h e power_keys_ask_within_guard [of example_config "set_power_size_clamped example_config"
        example_player "example_game\<lparr>power_size := 950\<rparr>" quiet_pygame "KEYDOWN K_UP"
        "example_player\<lparr>state := POWER\<rparr>" "example_game\<lparr>power_size := 1000\<rparr>" quiet_pygame 0]
    by blast
qed

text \<open>
  C5, as stated, fails: at full charge power the up key asks the session for nothing,
  and so does the down key at charge power 0; a setter that stores what it is asked
  would have stored 1100 and -100.
\<close>

theorem up_key_at_full_power_asks_nothing:
  "power_size (example_game\<lparr>power_size := 1000\<rparr>) = max_power_size example_config
   \<and> handle_event example_config set_power_size_plain example_player
        (example_game\<lparr>power_size := 1000\<rparr>) quiet_pygame (KEYDOWN K_UP)
      = Inr (example_player\<lparr>state := POWER\<rparr>, example_game\<lparr>power_size := 1000\<rparr>, quiet_pygame, 0)
   \<and> set_power_size_plain (example_game\<lparr>power_size := 1000\<rparr>) (1000 + 100)
      = example_game\<lparr>power_size := 1100\<rparr>
   \<and> handle_event example_config set_power_size_plain example_player
        (example_game\<lparr>power_size := 0\<rparr>) quiet_pygame (KEYDOWN K_DOWN)
      = Inr (example_player\<lparr>state := POWER\<rparr>, example_game\<lparr>power_size := 0\<rparr>, quiet_pygame, 0)
   \<and> set_power_size_plain (example_game\<lparr>power_size := 0\<rparr>) (0 - 100)
      = example_game\<lparr>power_size := - 100\<rparr>"
  by (simp add: handle_event_up handle_event_down example_config_def example_game_def
      set_power_size_plain_def)

end
